theory Spec2Isabelle
  imports Main "HOL-Library.Sublist"
begin

section \<open>Python values and exceptions\<close>

text \<open>
  The program is \<^verbatim>\<open>examples/experience_demo/encoder_decoder_text.py\<close>. Every
  \<^verbatim>\<open>raise\<close> of the interpreter that the modelled lines can reach is a value of
  \<open>error\<close>; a function that may raise returns \<open>error + 'a\<close>, with \<open>Inl\<close> the exception.
\<close>

datatype error =
    AssertionError
  | TypeError
  | IndexError
  | ValueError
  | AttributeError
  | KeyError string

text \<open>
  The cells of a trajectory are dynamically typed: the secret is an integer, the prompts
  and outputs are \<^verbatim>\<open>str\<close>, and \<^verbatim>\<open>get_last_digit\<close> is annotated to take a
  \<^verbatim>\<open>List[str]\<close>. A \<open>char\<close> stands for the code point of the same number, so the
  texts of the model are the Python strings over code points 0 to 255.
\<close>

datatype pyval = PInt int | PStr string | PList "pyval list"

text \<open>
  \<^verbatim>\<open>trajectories\<close> is annotated \<^verbatim>\<open>List[List]\<close>, and that is what
  \<^verbatim>\<open>encoder_decoder_experience_fn\<close> builds; the index expression
  \<^verbatim>\<open>trajectories[:, 2]\<close> is only defined on a two-dimensional array. Both containers
  are kept, each holding its rows.
\<close>

datatype trajs = PyList "pyval list list" | NdArray "pyval list list"

definition bind_res :: "error + 'a \<Rightarrow> ('a \<Rightarrow> error + 'b) \<Rightarrow> error + 'b" where
  "bind_res m f = (case m of Inl e \<Rightarrow> Inl e | Inr x \<Rightarrow> f x)"

section \<open>The reward function\<close>

subsection \<open>\<^verbatim>\<open>str.isdigit\<close> and \<^verbatim>\<open>int\<close>\<close>

text \<open>
  \<^verbatim>\<open>int\<close> reads the decimal digits only. \<^verbatim>\<open>str.isdigit\<close> also accepts the
  superscript digits, of which code points B2, B3 and B9 lie below 256.
\<close>

definition isdecimal_char :: "char \<Rightarrow> bool" where
  "isdecimal_char c = ((48::nat) \<le> of_char c \<and> (of_char c :: nat) \<le> 57)"

definition isdigit_char :: "char \<Rightarrow> bool" where
  "isdigit_char c =
     (isdecimal_char c \<or> (of_char c :: nat) = 178 \<or> (of_char c :: nat) = 179
      \<or> (of_char c :: nat) = 185)"

definition digit_value :: "char \<Rightarrow> int" where
  "digit_value c = int (of_char c) - 48"

text \<open>\<^verbatim>\<open>s.isdigit()\<close>: every character is a digit and there is at least one.\<close>

definition isdigit :: "string \<Rightarrow> bool" where
  "isdigit s = (s \<noteq> [] \<and> list_all isdigit_char s)"

text \<open>
  \<^verbatim>\<open>int(s)\<close> on a string that passed \<^verbatim>\<open>isdigit\<close>: the decimal value, or
  \<^verbatim>\<open>ValueError\<close> when a character is not a decimal digit. The interpreter's bound on
  the number of digits of \<open>s\<close> (4300 unless configured) is not modelled.
\<close>

definition py_int :: "string \<Rightarrow> error + int" where
  "py_int s =
     (if s \<noteq> [] \<and> list_all isdecimal_char s
      then Inr (foldl (\<lambda>a c. 10 * a + digit_value c) 0 s)
      else Inl ValueError)"

subsection \<open>\<^verbatim>\<open>get_last_digit\<close>\<close>

text \<open>
  \<^verbatim>\<open>sample[-1]\<close>: the last character of a string (a string of length one), the last
  element of a list, \<^verbatim>\<open>IndexError\<close> when there is none. An integer cannot be
  subscripted.
\<close>

fun index_last :: "pyval \<Rightarrow> error + pyval" where
  "index_last (PStr s) = (if s = [] then Inl IndexError else Inr (PStr [last s]))"
| "index_last (PList xs) = (if xs = [] then Inl IndexError else Inr (last xs))"
| "index_last (PInt n) = Inl TypeError"

text \<open>
  \<^verbatim>\<open>
  def get_last_digit(sample: List[str]) -> int:
      last_word = sample[-1]
      if last_word.isdigit():
          return int(last_word)
      else:
          return -1
  \<close>
  Only a \<^verbatim>\<open>str\<close> has the method \<^verbatim>\<open>isdigit\<close>.
\<close>

definition get_last_digit :: "pyval \<Rightarrow> error + int" where
  "get_last_digit sample =
     bind_res (index_last sample) (\<lambda>last_word.
       case last_word of
         PStr w \<Rightarrow> (if isdigit w then py_int w else Inr (- 1))
       | _ \<Rightarrow> Inl AttributeError)"

subsection \<open>\<^verbatim>\<open>reward_fn\<close>\<close>

text \<open>The loop of assertions \<^verbatim>\<open>assert len(sample) == 3\<close>, in row order.\<close>

fun assert_lens :: "pyval list list \<Rightarrow> error + unit" where
  "assert_lens [] = Inr ()"
| "assert_lens (sample # rest) =
     (if length sample = 3 then assert_lens rest else Inl AssertionError)"

definition rows :: "trajs \<Rightarrow> pyval list list" where
  "rows t = (case t of PyList rs \<Rightarrow> rs | NdArray rs \<Rightarrow> rs)"

text \<open>
  \<^verbatim>\<open>trajectories[:, k]\<close>: a list does not take a tuple as index
  (\<^verbatim>\<open>TypeError\<close>); an array gives column \<open>k\<close>, \<^verbatim>\<open>IndexError\<close> when it has no such
  column.
\<close>

definition column :: "trajs \<Rightarrow> nat \<Rightarrow> error + pyval list" where
  "column t k =
     (case t of
        PyList rs \<Rightarrow> Inl TypeError
      | NdArray rs \<Rightarrow>
          (if list_all (\<lambda>r. k < length r) rs then Inr (map (\<lambda>r. r ! k) rs)
           else Inl IndexError))"

text \<open>\<^verbatim>\<open>list(map(f, xs))\<close>: stops at the first element on which \<open>f\<close> raises.\<close>

fun map_res :: "('a \<Rightarrow> error + 'b) \<Rightarrow> 'a list \<Rightarrow> error + 'b list" where
  "map_res f [] = Inr []"
| "map_res f (x # xs) =
     bind_res (f x) (\<lambda>y. bind_res (map_res f xs) (\<lambda>ys. Inr (y # ys)))"

text \<open>\<^verbatim>\<open>digit == reconstructed_digit\<close>, the right-hand side an \<^verbatim>\<open>int\<close>.\<close>

fun py_eq_int :: "pyval \<Rightarrow> int \<Rightarrow> bool" where
  "py_eq_int (PInt d) r = (d = r)"
| "py_eq_int (PStr s) r = False"
| "py_eq_int (PList xs) r = False"

text \<open>
  \<^verbatim>\<open>[1 if digit == reconstructed_digit else 0 for digit, reconstructed_digit in zip(..)]\<close>
\<close>

definition score :: "pyval list \<Rightarrow> int list \<Rightarrow> int list" where
  "score digits reconstructed_digits =
     map (\<lambda>(digit, reconstructed_digit). if py_eq_int digit reconstructed_digit then 1 else 0)
       (zip digits reconstructed_digits)"

text \<open>
  \<^verbatim>\<open>
  def reward_fn(trajectories: List[List]) -> List[float]:
      for sample in trajectories:
          assert len(sample) == 3
      reconstructed_digits = list(map(get_last_digit, trajectories[:, 2]))
      return [1 if digit == reconstructed_digit else 0
              for digit, reconstructed_digit in zip(trajectories[:, 0], reconstructed_digits)]
  \<close>
\<close>

definition reward_fn :: "trajs \<Rightarrow> error + int list" where
  "reward_fn trajectories =
     bind_res (assert_lens (rows trajectories)) (\<lambda>_.
     bind_res (column trajectories 2) (\<lambda>outputs.
     bind_res (map_res get_last_digit outputs) (\<lambda>reconstructed_digits.
     bind_res (column trajectories 0) (\<lambda>digits.
       Inr (score digits reconstructed_digits)))))"

subsection \<open>The parsing rule in the words of the specification\<close>





section \<open>The experience function\<close>

subsection \<open>Collaborators\<close>

type_synonym tensor = "int list list"

record batch =
  input_ids :: tensor
  attention_mask :: tensor
  labels :: tensor

text \<open>
  Modelled from the spec: \<^verbatim>\<open>RunElementBatch\<close> and its \<^verbatim>\<open>__add__\<close>, of
  \<^verbatim>\<open>trlx/data/ppo_types.py\<close>, which is not among the sources. The specification's
  GenerationResult holds, per batch element, query tokens, response tokens, sampled text
  tokens, policy log-probabilities, reference log-probabilities and value estimates; the
  Batch Merger produces the record whose every field is the stage-1 field's sequence
  followed by the stage-2 field's sequence. \<open>'f\<close> is the type of one element's
  floating-point entries.
\<close>

record 'f RunElementBatch =
  samples :: tensor
  all_logprobs :: "'f list"
  all_ref_logprobs :: "'f list"
  query_tensors :: tensor
  response_tensors :: tensor
  all_values :: "'f list"

definition run_element_batch_add :: "'f RunElementBatch \<Rightarrow> 'f RunElementBatch \<Rightarrow> 'f RunElementBatch" where
  "run_element_batch_add a b =
     \<lparr> samples = samples a @ samples b,
       all_logprobs = all_logprobs a @ all_logprobs b,
       all_ref_logprobs = all_ref_logprobs a @ all_ref_logprobs b,
       query_tensors = query_tensors a @ query_tensors b,
       response_tensors = response_tensors a @ response_tensors b,
       all_values = all_values a @ all_values b \<rparr>"

text \<open>
  A statistics dictionary, in insertion order. The values are numbers of a type \<open>'v\<close> with
  an addition.
\<close>

type_synonym 'v stats = "(string \<times> 'v) list"

text \<open>
  The trainer and numpy's global generator are outside the program. Each call takes the
  state \<open>'w\<close> of the world (weights, generator state) and returns the new one, and each call
  of the trainer may raise. \<^verbatim>\<open>trainer.decode\<close> returns a triple whose first component
  the program discards; \<open>decode\<close> gives the other two, the prompt strings and the output
  strings. \<open>randint\<close> is \<^verbatim>\<open>np.random.randint(low, high, size)\<close>; that it returns
  \<open>size\<close> values from \<open>low\<close> up to \<open>high - 1\<close> is a property of numpy and is not assumed.
\<close>

record ('w, 'enc, 'f, 'v) env =
  randint :: "'w \<Rightarrow> int \<Rightarrow> int \<Rightarrow> nat \<Rightarrow> int list \<times> 'w"
  decode :: "'w \<Rightarrow> tensor \<Rightarrow> tensor \<Rightarrow> error + ((string list \<times> string list) \<times> 'w)"
  tokenizer :: "'w \<Rightarrow> string list \<Rightarrow> error + ('enc \<times> 'w)"
  generate_and_calc_logprobs ::
    "'w \<Rightarrow> 'enc \<Rightarrow> error + (('f RunElementBatch \<times> 'v stats) \<times> 'w)"

subsection \<open>Strings\<close>

text \<open>\<^verbatim>\<open>str\<close> of an integer, as an f-string renders \<^verbatim>\<open>{digits[i]}\<close>.\<close>

definition digit_char :: "nat \<Rightarrow> char" where
  "digit_char d = ''0123456789'' ! d"

fun str_nat :: "nat \<Rightarrow> string" where
  "str_nat n = (if n < 10 then [digit_char n] else str_nat (n div 10) @ [digit_char (n mod 10)])"

definition str_int :: "int \<Rightarrow> string" where
  "str_int i = (if i < 0 then CHR ''-'' # str_nat (nat (- i)) else str_nat (nat i))"

text \<open>\<^verbatim>\<open>xs[i]\<close> for \<open>i\<close> from a \<^verbatim>\<open>range\<close>, so never negative.\<close>

definition index :: "'a list \<Rightarrow> nat \<Rightarrow> error + 'a" where
  "index xs i = (if i < length xs then Inr (xs ! i) else Inl IndexError)"

text \<open>
  \<^verbatim>\<open>fact_strs = [f"Fact: x = {digits[i]}\nContinue the poem:\n\n" for i in range(batch_size)]\<close>
\<close>

definition fact_str :: "int \<Rightarrow> string" where
  "fact_str digit = ''Fact: x = '' @ str_int digit @ ''\<newline>Continue the poem:\<newline>\<newline>''"

definition fact_strs_of :: "nat \<Rightarrow> int list \<Rightarrow> error + string list" where
  "fact_strs_of batch_size digits =
     map_res (\<lambda>i. bind_res (index digits i) (\<lambda>d. Inr (fact_str d))) [0..<batch_size]"

text \<open>\<^verbatim>\<open>recall_str = f"\nRecall fact: x is either 0 or 1.\nAnswer: x ="\<close>\<close>

definition recall_str :: string where
  "recall_str = ''\<newline>Recall fact: x is either 0 or 1.\<newline>Answer: x =''"

text \<open>
  \<^verbatim>\<open>
  first_run_strs = [""] * batch_size
  for i in range(batch_size):
      first_run_strs[i] = fact_strs[i] + str_prompts[i] + "The\n"
  \<close>
\<close>

definition first_run_strs_of :: "nat \<Rightarrow> string list \<Rightarrow> string list \<Rightarrow> error + string list" where
  "first_run_strs_of batch_size fact_strs str_prompts =
     map_res (\<lambda>i. bind_res (index fact_strs i) (\<lambda>f.
                   bind_res (index str_prompts i) (\<lambda>p. Inr (f @ p @ ''The\<newline>''))))
       [0..<batch_size]"

text \<open>
  \<^verbatim>\<open>
  second_run_strs = [""] * batch_size
  for i in range(batch_size):
      second_run_strs[i] = str_prompts[i] + "\nThe" + first_run_str_outputs[i] + recall_str
  \<close>
\<close>

definition second_run_str :: "string \<Rightarrow> string \<Rightarrow> string" where
  "second_run_str str_prompt first_run_str_output =
     str_prompt @ ''\<newline>The'' @ first_run_str_output @ recall_str"

definition second_run_strs_of :: "nat \<Rightarrow> string list \<Rightarrow> string list \<Rightarrow> error + string list" where
  "second_run_strs_of batch_size str_prompts first_run_str_outputs =
     map_res (\<lambda>i. bind_res (index str_prompts i) (\<lambda>p.
                   bind_res (index first_run_str_outputs i) (\<lambda>out. Inr (second_run_str p out))))
       [0..<batch_size]"

subsection \<open>Merging the two runs\<close>

text \<open>
  \<^verbatim>\<open>stats = {k: first_run_stats[k] + second_run_stats[k] for k in first_run_stats}\<close>
  iterates over the keys of the first dictionary; \<^verbatim>\<open>second_run_stats[k]\<close> raises
  \<^verbatim>\<open>KeyError\<close> on a key the second dictionary lacks.
\<close>

definition lookup :: "'v stats \<Rightarrow> string \<Rightarrow> error + 'v" where
  "lookup d k = (case map_of d k of None \<Rightarrow> Inl (KeyError k) | Some v \<Rightarrow> Inr v)"

definition stats_sum :: "('v::plus) stats \<Rightarrow> 'v stats \<Rightarrow> error + 'v stats" where
  "stats_sum first_run_stats second_run_stats =
     map_res (\<lambda>(k, v1). bind_res (lookup second_run_stats k) (\<lambda>v2. Inr (k, v1 + v2)))
       first_run_stats"

subsection \<open>Trajectories\<close>

text \<open>
  \<^verbatim>\<open>
  trajectories = []
  for i in range(batch_size):
      trajectories.append([digits[i], first_run_str_prompts[i], first_run_str_outputs[i],
                           second_run_str_prompts[i], second_run_str_outputs[i]])
  \<close>
\<close>

definition trajectory_at ::
  "int list \<Rightarrow> string list \<Rightarrow> string list \<Rightarrow> string list \<Rightarrow> string list \<Rightarrow> nat
     \<Rightarrow> error + pyval list" where
  "trajectory_at digits first_run_str_prompts first_run_str_outputs
       second_run_str_prompts second_run_str_outputs i =
     bind_res (index digits i) (\<lambda>d.
     bind_res (index first_run_str_prompts i) (\<lambda>p1.
     bind_res (index first_run_str_outputs i) (\<lambda>o1.
     bind_res (index second_run_str_prompts i) (\<lambda>p2.
     bind_res (index second_run_str_outputs i) (\<lambda>o2.
       Inr [PInt d, PStr p1, PStr o1, PStr p2, PStr o2])))))"

definition trajectories_of ::
  "nat \<Rightarrow> int list \<Rightarrow> string list \<Rightarrow> string list \<Rightarrow> string list \<Rightarrow> string list
     \<Rightarrow> error + pyval list list" where
  "trajectories_of batch_size digits first_run_str_prompts first_run_str_outputs
       second_run_str_prompts second_run_str_outputs =
     map_res (trajectory_at digits first_run_str_prompts first_run_str_outputs
                second_run_str_prompts second_run_str_outputs)
       [0..<batch_size]"

subsection \<open>\<^verbatim>\<open>encoder_decoder_experience_fn\<close>\<close>

text \<open>The variables in scope once the first run is decoded (line 102 of the source).\<close>

record ('f, 'v) first_run =
  batch_size :: nat
  digits :: "int list"
  str_prompts :: "string list"
  first_run_data :: "'f RunElementBatch"
  first_run_stats :: "'v stats"
  first_run_str_prompts :: "string list"
  first_run_str_outputs :: "string list"

text \<open>
  Lines 73 to 102: the batch size, the sampled digits
  (\<^verbatim>\<open>list(np.random.randint(0, 2, batch_size))\<close>), the decoded prompts, the first
  run's prompts, their encoding, the generation and its decoding.
\<close>

definition first_run_of ::
  "('w, 'enc, 'f, 'v) env \<Rightarrow> 'w \<Rightarrow> batch \<Rightarrow> error + (('f, 'v) first_run \<times> 'w)" where
  "first_run_of e w0 b =
     (let n = length (input_ids b);
          (ds, w1) = randint e w0 0 2 n
      in bind_res (fact_strs_of n ds) (\<lambda>fact_strs.
         bind_res (decode e w1 (input_ids b) (input_ids b)) (\<lambda>((prompts, _), w2).
         bind_res (first_run_strs_of n fact_strs prompts) (\<lambda>first_run_strs.
         bind_res (tokenizer e w2 first_run_strs) (\<lambda>(first_run_batch, w3).
         bind_res (generate_and_calc_logprobs e w3 first_run_batch) (\<lambda>((data1, stats1), w4).
         bind_res (decode e w4 (query_tensors data1) (response_tensors data1))
           (\<lambda>((prompts1, outputs1), w5).
             Inr (\<lparr> batch_size = n, digits = ds, str_prompts = prompts,
                    first_run_data = data1, first_run_stats = stats1,
                    first_run_str_prompts = prompts1, first_run_str_outputs = outputs1 \<rparr>,
                  w5))))))))"

text \<open>Lines 104 to 107: the prompts of the second run.\<close>

definition second_run_strs :: "('f, 'v) first_run \<Rightarrow> error + string list" where
  "second_run_strs l = second_run_strs_of (batch_size l) (str_prompts l) (first_run_str_outputs l)"

text \<open>
  The whole function: the first run, the second run's prompts, their encoding, generation
  and decoding, the merged data and statistics, and the trajectories. It returns
  \<^verbatim>\<open>trajectories, data, stats\<close>.
\<close>

definition encoder_decoder_experience_fn ::
  "('w, 'enc, 'f, 'v::plus) env \<Rightarrow> 'w \<Rightarrow> batch
     \<Rightarrow> error + ((pyval list list \<times> 'f RunElementBatch \<times> 'v stats) \<times> 'w)" where
  "encoder_decoder_experience_fn e w0 b =
     bind_res (first_run_of e w0 b) (\<lambda>(l, w5).
     bind_res (second_run_strs l) (\<lambda>strs2.
     bind_res (tokenizer e w5 strs2) (\<lambda>(second_run_batch, w6).
     bind_res (generate_and_calc_logprobs e w6 second_run_batch) (\<lambda>((data2, stats2), w7).
     bind_res (decode e w7 (query_tensors data2) (response_tensors data2))
       (\<lambda>((prompts2, outputs2), w8).
     bind_res (stats_sum (first_run_stats l) stats2) (\<lambda>stats.
     bind_res (trajectories_of (batch_size l) (digits l) (first_run_str_prompts l)
                 (first_run_str_outputs l) prompts2 outputs2) (\<lambda>trajectories.
       Inr ((trajectories, run_element_batch_add (first_run_data l) data2, stats), w8))))))))"

subsection \<open>A scripted trainer\<close>

text \<open>
  A scripted trainer and a batch of one prompt, on which the function can be run: the
  decoder answers every row with the same prompt and the same continuation, the tokenizer
  and the generator return fixed tokens and statistics, and the generator state \<open>w\<close>
  yields the digit \<open>w mod 2\<close>.
\<close>

definition stub_env :: "(nat, tensor, int, int) env" where
  "stub_env =
     \<lparr> randint = (\<lambda>w lo hi n. (replicate n (int (w mod 2)), Suc w)),
       decode = (\<lambda>w q r. Inr ((map (\<lambda>_. ''Roses are red'') q, map (\<lambda>_. '' sun rises softly'') r), w)),
       tokenizer = (\<lambda>w strs. Inr (map (\<lambda>_. [7]) strs, w)),
       generate_and_calc_logprobs = (\<lambda>w enc.
         Inr ((\<lparr> samples = enc, all_logprobs = map (\<lambda>_. 0) enc,
                  all_ref_logprobs = map (\<lambda>_. 0) enc, query_tensors = enc,
                  response_tensors = enc, all_values = map (\<lambda>_. 0) enc \<rparr>,
               [(''kl'', 1)]), w)) \<rparr>"

definition stub_batch :: batch where
  "stub_batch = \<lparr> input_ids = [[3]], attention_mask = [[1]], labels = [[8]] \<rparr>"

text \<open>
  The variables of the scripted run after its first stage, for the sampled digit \<open>d\<close>.
\<close>

definition stub_first_run :: "int \<Rightarrow> (int, int) first_run" where
  "stub_first_run d =
     \<lparr> batch_size = 1, digits = [d], str_prompts = [''Roses are red''],
       first_run_data = \<lparr> samples = [[7]], all_logprobs = [0], all_ref_logprobs = [0],
                          query_tensors = [[7]], response_tensors = [[7]], all_values = [0] \<rparr>,
       first_run_stats = [(''kl'', 1)],
       first_run_str_prompts = [''Roses are red''],
       first_run_str_outputs = ['' sun rises softly''] \<rparr>"

section \<open>Results and lists of results\<close>

lemma bind_res_Inl: "bind_res (Inl e) f = Inl e"
  by (simp add: bind_res_def)

lemma bind_res_Inr: "bind_res (Inr x) f = f x"
  by (simp add: bind_res_def)

lemma bind_res_eq_Inr:
  "bind_res m f = Inr y \<longleftrightarrow> (\<exists>x. m = Inr x \<and> f x = Inr y)"
  by (cases m) (simp_all add: bind_res_def)

lemma map_res_total:
  "(\<And>x. x \<in> set xs \<Longrightarrow> f x = Inr (g x)) \<Longrightarrow> map_res f xs = Inr (map g xs)"
  by (induction xs) (simp_all add: bind_res_Inr)

lemma map_res_fails:
  "x \<in> set xs \<Longrightarrow> f x = Inl e \<Longrightarrow> (\<And>y. y \<in> set xs \<Longrightarrow> f y = Inl e \<or> (\<exists>v. f y = Inr v))
     \<Longrightarrow> map_res f xs = Inl e"
proof (induction xs)
  case Nil
  then show ?case by simp
next
  case (Cons a xs)
  show ?case
  proof (cases "f a")
    case (Inl e')
    with Cons.prems(3)[of a] have "e' = e" by auto
    with Inl show ?thesis by (simp add: bind_res_Inl)
  next
    case (Inr v)
    with Cons.prems(1,2) have "x \<in> set xs" by auto
    then have "map_res f xs = Inl e"
      using Cons.IH Cons.prems(2,3) by auto
    with Inr show ?thesis by (simp add: bind_res_Inr bind_res_Inl)
  qed
qed

lemma map_res_Inr_length: "map_res f xs = Inr ys \<Longrightarrow> length ys = length xs"
  by (induction xs arbitrary: ys) (auto simp: bind_res_eq_Inr)

lemma map_res_Inr_nth:
  "map_res f xs = Inr ys \<Longrightarrow> i < length xs \<Longrightarrow> f (xs ! i) = Inr (ys ! i)"
proof (induction xs arbitrary: ys i)
  case Nil
  then show ?case by simp
next
  case (Cons a xs)
  then show ?case
    by (cases i) (auto simp: bind_res_eq_Inr)
qed

lemma index_in: "i < length xs \<Longrightarrow> index xs i = Inr (xs ! i)"
  by (simp add: index_def)

lemma index_out: "\<not> i < length xs \<Longrightarrow> index xs i = Inl IndexError"
  by (simp add: index_def)

section \<open>The reward scorer\<close>

lemma score_length: "length (score ds rs) = min (length ds) (length rs)"
  by (simp add: score_def)

lemma score_nth:
  "i < length ds \<Longrightarrow> i < length rs \<Longrightarrow>
     score ds rs ! i = (if py_eq_int (ds ! i) (rs ! i) then 1 else 0)"
  by (simp add: score_def)









text \<open>
  Claim C2: the Reward Scorer never raises on five-field trajectories, and an empty final
  output is scored 0. The code raises: on a five-field trajectory the assertion
  \<^verbatim>\<open>len(sample) == 3\<close> fails, for the list and for the array; on three fields the list
  does not take the index \<^verbatim>\<open>[:, 2]\<close>, and on the empty text \<open>get_last_digit\<close> raises
  \<^verbatim>\<open>IndexError\<close>.
\<close>

theorem C2_reward_fn_raises:
  "reward_fn (PyList [[PInt 1, PStr ''p1'', PStr ''o1'', PStr ''p2'', PStr '''']]) = Inl AssertionError
   \<and> reward_fn (NdArray [[PInt 1, PStr ''p1'', PStr ''o1'', PStr ''p2'', PStr '''']]) = Inl AssertionError
   \<and> reward_fn (PyList [[PInt 1, PStr ''p1'', PStr '''']]) = Inl TypeError
   \<and> reward_fn (NdArray [[PInt 1, PStr ''p1'', PStr '''']]) = Inl IndexError
   \<and> get_last_digit (PStr '''') = Inl IndexError"
  by (simp add: reward_fn_def rows_def column_def bind_res_def get_last_digit_def)

section \<open>The trajectory reconstructor\<close>

lemma trajectory_at_in:
  assumes "i < length ds" "i < length p1" "i < length o1" "i < length p2" "i < length o2"
  shows "trajectory_at ds p1 o1 p2 o2 i =
           Inr [PInt (ds ! i), PStr (p1 ! i), PStr (o1 ! i), PStr (p2 ! i), PStr (o2 ! i)]"
  using assms by (simp add: trajectory_at_def index_in bind_res_Inr)

lemma trajectory_at_cases:
  "trajectory_at ds p1 o1 p2 o2 i = Inl IndexError \<or> (\<exists>v. trajectory_at ds p1 o1 p2 o2 i = Inr v)"
  by (simp add: trajectory_at_def index_def bind_res_def)

lemma trajectory_at_out:
  assumes "\<not> (i < length ds \<and> i < length p1 \<and> i < length o1 \<and> i < length p2 \<and> i < length o2)"
  shows "trajectory_at ds p1 o1 p2 o2 i = Inl IndexError"
  using assms by (auto simp: trajectory_at_def index_def bind_res_def)

lemma trajectories_of_long:
  assumes "n \<le> length ds" "n \<le> length p1" "n \<le> length o1" "n \<le> length p2" "n \<le> length o2"
  shows "trajectories_of n ds p1 o1 p2 o2 =
           Inr (map (\<lambda>i. [PInt (ds ! i), PStr (p1 ! i), PStr (o1 ! i), PStr (p2 ! i), PStr (o2 ! i)])
                  [0..<n])"
  unfolding trajectories_of_def
  by (rule map_res_total) (use assms in \<open>simp add: trajectory_at_in\<close>)

lemma trajectories_of_short:
  assumes "length ds < n \<or> length p1 < n \<or> length o1 < n \<or> length p2 < n \<or> length o2 < n"
  shows "trajectories_of n ds p1 o1 p2 o2 = Inl IndexError"
proof -
  define m where "m = Min {length ds, length p1, length o1, length p2, length o2}"
  have "m \<in> {length ds, length p1, length o1, length p2, length o2}"
    unfolding m_def by (rule Min_in) simp_all
  then have out: "\<not> (m < length ds \<and> m < length p1 \<and> m < length o1 \<and> m < length p2 \<and> m < length o2)"
    by auto
  have "m < n"
    using assms unfolding m_def by (auto simp: Min_less_iff)
  then have mem: "m \<in> set [0..<n]" by simp
  show ?thesis
    unfolding trajectories_of_def
    by (rule map_res_fails [where f = "trajectory_at ds p1 o1 p2 o2" and x = m])
      (use mem out in \<open>simp_all add: trajectory_at_out trajectory_at_cases\<close>)
qed

text \<open>
  Claim C3: from five sequences of length \<open>n\<close> the reconstruction returns exactly \<open>n\<close>
  trajectories, and trajectory \<open>i\<close> is the five fields secret, stage-1 prompt, stage-1
  output, stage-2 prompt, stage-2 output of element \<open>i\<close>, in this order, whatever the
  strings are.
\<close>

theorem C3_trajectories_shape:
  assumes "length ds = n" "length p1 = n" "length o1 = n" "length p2 = n" "length o2 = n"
  shows "\<exists>ts. trajectories_of n ds p1 o1 p2 o2 = Inr ts \<and> length ts = n
           \<and> (\<forall>i < n. length (ts ! i) = 5
                 \<and> ts ! i = [PInt (ds ! i), PStr (p1 ! i), PStr (o1 ! i), PStr (p2 ! i), PStr (o2 ! i)])"
  using trajectories_of_long [of n ds p1 o1 p2 o2] assms by simp

text \<open>
  Claim C3 at a batch of two elements, one of them with an empty stage-2 output.
\<close>

theorem C3_trajectories_shape_witness:
  "\<exists>ts. trajectories_of 2 [0, 1] [''a1'', ''b1''] [''a2'', ''b2''] [''a3'', ''b3''] ['''', ''b4'']
          = Inr ts \<and> length ts = 2
        \<and> (\<forall>i < 2. length (ts ! i) = 5
              \<and> ts ! i = [PInt ([0, 1] ! i), PStr ([''a1'', ''b1''] ! i), PStr ([''a2'', ''b2''] ! i),
                          PStr ([''a3'', ''b3''] ! i), PStr (['''', ''b4''] ! i)])"
  using C3_trajectories_shape
    [of "[0, 1]" 2 "[''a1'', ''b1'']" "[''a2'', ''b2'']" "[''a3'', ''b3'']" "['''', ''b4'']"]
  by simp

text \<open>
  Claim C4, as stated, fails: with batch size 1 and a sequence of stage-1 outputs of length
  2 the lengths differ, and the reconstruction returns one trajectory, the second stage-1
  output dropped.
\<close>

theorem C4_counterexample:
  "trajectories_of 1 [0] [''a''] [''b'', ''extra''] [''c''] [''d'']
     = Inr [[PInt 0, PStr ''a'', PStr ''b'', PStr ''c'', PStr ''d'']]"
  by (simp add: trajectories_of_def trajectory_at_def index_def bind_res_def)

text \<open>
  Claim C4, amended. When one of the five sequences is shorter than the batch size, the
  reconstruction raises \<^verbatim>\<open>IndexError\<close> and returns no trajectories. When every sequence
  has at least \<open>n\<close> elements, it returns the \<open>n\<close> trajectories of their first \<open>n\<close>
  elements: what lies beyond the batch size is ignored.
\<close>

theorem C4_short_raises_long_truncated:
  "(length ds < n \<or> length p1 < n \<or> length o1 < n \<or> length p2 < n \<or> length o2 < n
      \<longrightarrow> trajectories_of n ds p1 o1 p2 o2 = Inl IndexError)
   \<and> (n \<le> length ds \<and> n \<le> length p1 \<and> n \<le> length o1 \<and> n \<le> length p2 \<and> n \<le> length o2
      \<longrightarrow> trajectories_of n ds p1 o1 p2 o2 =
            trajectories_of n (take n ds) (take n p1) (take n o1) (take n p2) (take n o2)
          \<and> trajectories_of n ds p1 o1 p2 o2 =
            Inr (map (\<lambda>i. [PInt (ds ! i), PStr (p1 ! i), PStr (o1 ! i), PStr (p2 ! i), PStr (o2 ! i)])
                   [0..<n]))"
proof (intro conjI impI)
  assume "length ds < n \<or> length p1 < n \<or> length o1 < n \<or> length p2 < n \<or> length o2 < n"
  then show "trajectories_of n ds p1 o1 p2 o2 = Inl IndexError"
    by (rule trajectories_of_short)
next
  assume long: "n \<le> length ds \<and> n \<le> length p1 \<and> n \<le> length o1 \<and> n \<le> length p2 \<and> n \<le> length o2"
  then show full: "trajectories_of n ds p1 o1 p2 o2 =
      Inr (map (\<lambda>i. [PInt (ds ! i), PStr (p1 ! i), PStr (o1 ! i), PStr (p2 ! i), PStr (o2 ! i)])
             [0..<n])"
    by (simp add: trajectories_of_long)
  have "trajectories_of n (take n ds) (take n p1) (take n o1) (take n p2) (take n o2) =
      Inr (map (\<lambda>i. [PInt (take n ds ! i), PStr (take n p1 ! i), PStr (take n o1 ! i),
                      PStr (take n p2 ! i), PStr (take n o2 ! i)]) [0..<n])"
    using long by (intro trajectories_of_long) simp_all
  then show "trajectories_of n ds p1 o1 p2 o2 =
      trajectories_of n (take n ds) (take n p1) (take n o1) (take n p2) (take n o2)"
    using full by simp
qed

text \<open>
  The amended claim C4 at a stage-1 output sequence that is too short, and at one that is
  too long.
\<close>

theorem C4_short_raises_long_truncated_witness:
  "trajectories_of 2 [0, 1] [''a'', ''b''] [''c''] [''d'', ''e''] [''f'', ''g''] = Inl IndexError
   \<and> trajectories_of 1 [0] [''a''] [''b'', ''extra''] [''c''] [''d''] =
       trajectories_of 1 [0] [''a''] [''b''] [''c''] [''d'']"
proof -
  have a: "trajectories_of 2 [0, 1] [''a'', ''b''] [''c''] [''d'', ''e''] [''f'', ''g''] = Inl IndexError"
    using C4_short_raises_long_truncated
      [of "[0, 1]" 2 "[''a'', ''b'']" "[''c'']" "[''d'', ''e'']" "[''f'', ''g'']"]
    by simp
  have b: "trajectories_of 1 [0] [''a''] [''b'', ''extra''] [''c''] [''d''] =
       trajectories_of 1 [0] [''a''] [''b''] [''c''] [''d'']"
    using C4_short_raises_long_truncated
      [of "[0]" 1 "[''a'']" "[''b'', ''extra'']" "[''c'']" "[''d'']"]
    by simp
  from a b show ?thesis by simp
qed

section \<open>The batch merger\<close>

lemma map_res_first_failure:
  "\<exists>x \<in> set xs. \<exists>e. f x = Inl e \<Longrightarrow> \<exists>x \<in> set xs. \<exists>e. f x = Inl e \<and> map_res f xs = Inl e"
proof (induction xs)
  case Nil
  then show ?case by simp
next
  case (Cons a xs)
  show ?case
  proof (cases "f a")
    case (Inl e)
    then show ?thesis by (auto simp: bind_res_Inl)
  next
    case (Inr v)
    with Cons.prems have "\<exists>x \<in> set xs. \<exists>e. f x = Inl e" by auto
    then obtain x e where "x \<in> set xs" "f x = Inl e" "map_res f xs = Inl e"
      using Cons.IH by blast
    with Inr show ?thesis by (auto simp: bind_res_Inr bind_res_Inl)
  qed
qed

lemma lookup_in: "k \<in> fst ` set d \<Longrightarrow> lookup d k = Inr (the (map_of d k))"
  by (auto simp: lookup_def dom_map_of_conv_image_fst [symmetric] split: option.splits)

lemma lookup_out: "k \<notin> fst ` set d \<Longrightarrow> lookup d k = Inl (KeyError k)"
  using map_of_eq_None_iff [of d k] by (simp add: lookup_def)

lemma stats_sum_subset:
  assumes "fst ` set s1 \<subseteq> fst ` set s2"
  shows "stats_sum s1 s2 = Inr (map (\<lambda>(k, v1). (k, v1 + the (map_of s2 k))) s1)"
  unfolding stats_sum_def
proof (rule map_res_total)
  fix x assume "x \<in> set s1"
  then have "fst x \<in> fst ` set s2"
    using assms by auto
  then show "(case x of (k, v1) \<Rightarrow> bind_res (lookup s2 k) (\<lambda>v2. Inr (k, v1 + v2))) =
      Inr (case x of (k, v1) \<Rightarrow> (k, v1 + the (map_of s2 k)))"
    by (cases x) (simp add: lookup_in bind_res_Inr)
qed

lemma map_of_keyed_map:
  "map_of (map (\<lambda>(k, v). (k, h k v)) xs) k = map_option (h k) (map_of xs k)"
  by (induction xs) auto

lemma stats_sum_missing:
  assumes "\<not> fst ` set s1 \<subseteq> fst ` set s2"
  shows "\<exists>k. k \<in> fst ` set s1 \<and> k \<notin> fst ` set s2 \<and> stats_sum s1 s2 = Inl (KeyError k)"
proof -
  let ?f = "\<lambda>(k, v1). bind_res (lookup s2 k) (\<lambda>v2. Inr (k, v1 + v2))"
  from assms obtain k where "k \<in> fst ` set s1" "k \<notin> fst ` set s2"
    by blast
  then obtain v where kv: "(k, v) \<in> set s1" "k \<notin> fst ` set s2"
    by auto
  then have "?f (k, v) = Inl (KeyError k)"
    by (simp add: lookup_out bind_res_Inl)
  with kv(1) have "\<exists>x \<in> set s1. \<exists>e. ?f x = Inl e" by blast
  then obtain x e where x: "x \<in> set s1" "?f x = Inl e" "map_res ?f s1 = Inl e"
    using map_res_first_failure [of s1 ?f] by blast
  obtain k' v' where x_def: "x = (k', v')" by (cases x)
  have "k' \<notin> fst ` set s2"
  proof
    assume "k' \<in> fst ` set s2"
    then have "?f x = Inr (k', v' + the (map_of s2 k'))"
      by (simp add: x_def lookup_in bind_res_Inr)
    with x(2) show False by simp
  qed
  then have "e = KeyError k'"
    using x(2) by (simp add: x_def lookup_out bind_res_Inl)
  moreover have "k' \<in> fst ` set s1"
    using x(1) x_def by force
  ultimately show ?thesis
    using x(3) \<open>k' \<notin> fst ` set s2\<close> by (auto simp: stats_sum_def)
qed

text \<open>
  Claim C5, as stated, fails: the second dictionary has the key \<^verbatim>\<open>loss\<close> that the
  first lacks, and the merge returns a dictionary over the first one's keys.
\<close>

theorem C5_counterexample:
  "stats_sum [(''kl'', 1::int)] [(''kl'', 2), (''loss'', 3)] = Inr [(''kl'', 3)]"
  by (simp add: stats_sum_def lookup_def bind_res_def)

text \<open>
  Claim C5, amended. When every key of the first dictionary is a key of the second (so when
  the key sets are equal), the merge returns a dictionary with the keys of the first, in
  their order, each value the sum of the two values of its key. When the first dictionary has
  a key that the second lacks, the merge raises \<^verbatim>\<open>KeyError\<close> on such a key. Keys of
  the second dictionary alone are dropped.
\<close>

theorem C5_stats_sum:
  "(fst ` set s1 \<subseteq> fst ` set s2 \<longrightarrow>
      (\<exists>r. stats_sum s1 s2 = Inr r \<and> map fst r = map fst s1
         \<and> (\<forall>k v1 v2. map_of s1 k = Some v1 \<and> map_of s2 k = Some v2
               \<longrightarrow> map_of r k = Some (v1 + v2))))
   \<and> (\<not> fst ` set s1 \<subseteq> fst ` set s2 \<longrightarrow>
      (\<exists>k. k \<in> fst ` set s1 \<and> k \<notin> fst ` set s2 \<and> stats_sum s1 s2 = Inl (KeyError k)))"
proof (intro conjI impI)
  assume sub: "fst ` set s1 \<subseteq> fst ` set s2"
  let ?r = "map (\<lambda>(k, v1). (k, v1 + the (map_of s2 k))) s1"
  have "stats_sum s1 s2 = Inr ?r"
    using sub by (rule stats_sum_subset)
  moreover have "map fst ?r = map fst s1"
    by (induction s1) auto
  moreover have "\<forall>k v1 v2. map_of s1 k = Some v1 \<and> map_of s2 k = Some v2
      \<longrightarrow> map_of ?r k = Some (v1 + v2)"
    by (simp add: map_of_keyed_map)
  ultimately show "\<exists>r. stats_sum s1 s2 = Inr r \<and> map fst r = map fst s1
      \<and> (\<forall>k v1 v2. map_of s1 k = Some v1 \<and> map_of s2 k = Some v2
            \<longrightarrow> map_of r k = Some (v1 + v2))"
    by blast
next
  assume "\<not> fst ` set s1 \<subseteq> fst ` set s2"
  then show "\<exists>k. k \<in> fst ` set s1 \<and> k \<notin> fst ` set s2 \<and> stats_sum s1 s2 = Inl (KeyError k)"
    by (rule stats_sum_missing)
qed

text \<open>
  The amended claim C5 at two dictionaries with the same keys in different orders, and at a
  second dictionary that lacks \<^verbatim>\<open>loss\<close>.
\<close>

theorem C5_stats_sum_witness:
  "(\<exists>r. stats_sum [(''kl'', 1::int), (''loss'', 2)] [(''loss'', 10), (''kl'', 20)] = Inr r
        \<and> map fst r = [''kl'', ''loss'']
        \<and> map_of r ''kl'' = Some 21 \<and> map_of r ''loss'' = Some 12)
   \<and> (\<exists>k. stats_sum [(''kl'', 1::int), (''loss'', 2)] [(''kl'', 20)] = Inl (KeyError k))"
proof -
  let ?s1 = "[(''kl'', 1::int), (''loss'', 2)]"
  let ?s2 = "[(''loss'', 10::int), (''kl'', 20)]"
  have sub: "fst ` set ?s1 \<subseteq> fst ` set ?s2" by simp
  from sub C5_stats_sum [of ?s1 ?s2]
  obtain r where r: "stats_sum ?s1 ?s2 = Inr r" "map fst r = map fst ?s1"
    and sums: "\<forall>k v1 v2. map_of ?s1 k = Some v1 \<and> map_of ?s2 k = Some v2
          \<longrightarrow> map_of r k = Some (v1 + v2)"
    by blast
  have "map_of ?s1 ''kl'' = Some 1 \<and> map_of ?s2 ''kl'' = Some 20" by simp
  with sums have kl: "map_of r ''kl'' = Some (1 + 20)" by blast
  have "map_of ?s1 ''loss'' = Some 2 \<and> map_of ?s2 ''loss'' = Some 10" by simp
  with sums have loss: "map_of r ''loss'' = Some (2 + 10)" by blast
  have a: "\<exists>r. stats_sum ?s1 ?s2 = Inr r \<and> map fst r = [''kl'', ''loss'']
        \<and> map_of r ''kl'' = Some 21 \<and> map_of r ''loss'' = Some 12"
    using r kl loss by simp
  have "\<not> fst ` set ?s1 \<subseteq> fst ` set [(''kl'', 20::int)]" by simp
  with C5_stats_sum [of ?s1 "[(''kl'', 20::int)]"]
  have b: "\<exists>k. stats_sum ?s1 [(''kl'', 20::int)] = Inl (KeyError k)"
    by blast
  from a b show ?thesis by blast
qed

text \<open>
  Claim C7: for two records whose fields all have length \<open>n\<close>, every field of the merged
  record is the first record's field followed by the second's, of length \<open>2 * n\<close>.
\<close>

theorem C7_batch_merger:
  assumes "length (samples a) = n" "length (all_logprobs a) = n" "length (all_ref_logprobs a) = n"
    "length (query_tensors a) = n" "length (response_tensors a) = n" "length (all_values a) = n"
    and "length (samples b) = n" "length (all_logprobs b) = n" "length (all_ref_logprobs b) = n"
    "length (query_tensors b) = n" "length (response_tensors b) = n" "length (all_values b) = n"
  shows "samples (run_element_batch_add a b) = samples a @ samples b
         \<and> all_logprobs (run_element_batch_add a b) = all_logprobs a @ all_logprobs b
         \<and> all_ref_logprobs (run_element_batch_add a b) = all_ref_logprobs a @ all_ref_logprobs b
         \<and> query_tensors (run_element_batch_add a b) = query_tensors a @ query_tensors b
         \<and> response_tensors (run_element_batch_add a b) = response_tensors a @ response_tensors b
         \<and> all_values (run_element_batch_add a b) = all_values a @ all_values b
         \<and> length (samples (run_element_batch_add a b)) = 2 * n
         \<and> length (all_logprobs (run_element_batch_add a b)) = 2 * n
         \<and> length (all_ref_logprobs (run_element_batch_add a b)) = 2 * n
         \<and> length (query_tensors (run_element_batch_add a b)) = 2 * n
         \<and> length (response_tensors (run_element_batch_add a b)) = 2 * n
         \<and> length (all_values (run_element_batch_add a b)) = 2 * n"
  using assms by (simp add: run_element_batch_add_def)

text \<open>
  Claim C7 at two records of batch size 1.
\<close>
theorem C7_batch_merger_witness:
  "samples (run_element_batch_add
      \<lparr> samples = [[1]], all_logprobs = [2::int], all_ref_logprobs = [3],
        query_tensors = [[4]], response_tensors = [[5]], all_values = [6] \<rparr>
      \<lparr> samples = [[7]], all_logprobs = [8], all_ref_logprobs = [9],
        query_tensors = [[10]], response_tensors = [[11]], all_values = [12] \<rparr>) = [[1], [7]]
   \<and> length (all_values (run_element_batch_add
      \<lparr> samples = [[1]], all_logprobs = [2::int], all_ref_logprobs = [3],
        query_tensors = [[4]], response_tensors = [[5]], all_values = [6] \<rparr>
      \<lparr> samples = [[7]], all_logprobs = [8], all_ref_logprobs = [9],
        query_tensors = [[10]], response_tensors = [[11]], all_values = [12] \<rparr>)) = 2"
  using C7_batch_merger
    [of "\<lparr> samples = [[1]], all_logprobs = [2::int], all_ref_logprobs = [3],
           query_tensors = [[4]], response_tensors = [[5]], all_values = [6] \<rparr>" 1
        "\<lparr> samples = [[7]], all_logprobs = [8], all_ref_logprobs = [9],
           query_tensors = [[10]], response_tensors = [[11]], all_values = [12] \<rparr>"]
  by simp

section \<open>The prompt composer\<close>

lemma second_run_strs_of_long:
  assumes "n \<le> length ps" "n \<le> length outs"
  shows "second_run_strs_of n ps outs =
           Inr (map (\<lambda>i. second_run_str (ps ! i) (outs ! i)) [0..<n])"
  unfolding second_run_strs_of_def
  by (rule map_res_total) (use assms in \<open>simp add: index_in bind_res_Inr\<close>)

lemma second_run_strs_of_nth:
  assumes "second_run_strs_of n ps outs = Inr r" "i < n"
  shows "r ! i = second_run_str (ps ! i) (outs ! i)"
proof -
  let ?f = "\<lambda>i. bind_res (index ps i) (\<lambda>p.
              bind_res (index outs i) (\<lambda>out. Inr (second_run_str p out)))"
  have "?f ([0..<n] ! i) = Inr (r ! i)"
    using assms map_res_Inr_nth [of ?f "[0..<n]" r i]
    by (simp add: second_run_strs_of_def)
  then have "?f i = Inr (r ! i)"
    using assms(2) by simp
  then show ?thesis
    by (auto simp: bind_res_eq_Inr index_def split: if_splits)
qed

text \<open>
  Claim C6, as stated, fails: for the secret 0 the fixed text of the stage-2 template,
  \<^verbatim>\<open>recall_str\<close>, contains the digit string \<^verbatim>\<open>0\<close> of the secret.
\<close>

theorem C6_counterexample:
  "sublist (str_int 0) recall_str"
  by code_simp

text \<open>
  Claim C6, amended. The text that the template contributes to the stage-2 prompt of element
  \<open>i\<close> is fixed: \<^verbatim>\<open>"\nThe"\<close> between the base prompt and the stage-1 output, and
  \<^verbatim>\<open>"\nRecall fact: x is either 0 or 1.\nAnswer: x ="\<close> after it. It names both values of
  the alphabet, so it contains the digit string of the secret of element \<open>i\<close>, whichever of
  0 and 1 that is; and the prompts stay the same when the sampled digits are replaced by any
  others.
\<close>

theorem C6_template_names_both_values:
  assumes "second_run_strs l = Inr r" and "i < batch_size l"
    and "digits l ! i = 0 \<or> digits l ! i = 1"
  shows "r ! i = str_prompts l ! i @ ''\<newline>The'' @ first_run_str_outputs l ! i
                   @ ''\<newline>Recall fact: x is either 0 or 1.\<newline>Answer: x =''
         \<and> sublist (str_int (digits l ! i)) recall_str
         \<and> second_run_strs (l\<lparr>digits := ds\<rparr>) = Inr r"
proof -
  have "r ! i = second_run_str (str_prompts l ! i) (first_run_str_outputs l ! i)"
    using assms(1,2) by (simp add: second_run_strs_def second_run_strs_of_nth)
  then have shape: "r ! i = str_prompts l ! i @ ''\<newline>The'' @ first_run_str_outputs l ! i
                   @ ''\<newline>Recall fact: x is either 0 or 1.\<newline>Answer: x =''"
    by (simp add: second_run_str_def recall_str_def)
  have zero: "sublist (str_int 0) recall_str" by code_simp
  have one: "sublist (str_int 1) recall_str" by code_simp
  have named: "sublist (str_int (digits l ! i)) recall_str"
    using assms(3) zero one by auto
  have same: "second_run_strs (l\<lparr>digits := ds\<rparr>) = Inr r"
    using assms(1) by (simp add: second_run_strs_def)
  from shape named same show ?thesis by blast
qed

text \<open>
  The amended claim C6 at one element with the secret 1.
\<close>

theorem C6_template_names_both_values_witness:
  "second_run_strs
     \<lparr> batch_size = 1, digits = [1], str_prompts = [''Roses are red''],
       first_run_data = \<lparr> samples = [], all_logprobs = ([] :: int list), all_ref_logprobs = [],
                          query_tensors = [], response_tensors = [], all_values = [] \<rparr>,
       first_run_stats = ([] :: int stats),
       first_run_str_prompts = [''p''], first_run_str_outputs = ['' sun''] \<rparr>
     = Inr [''Roses are red\<newline>The sun\<newline>Recall fact: x is either 0 or 1.\<newline>Answer: x ='']
   \<and> sublist (str_int 1) recall_str"
proof -
  let ?l = "\<lparr> batch_size = 1, digits = [1], str_prompts = [''Roses are red''],
       first_run_data = \<lparr> samples = [], all_logprobs = ([] :: int list), all_ref_logprobs = [],
                          query_tensors = [], response_tensors = [], all_values = [] \<rparr>,
       first_run_stats = ([] :: int stats),
       first_run_str_prompts = [''p''], first_run_str_outputs = ['' sun''] \<rparr>"
  have run: "second_run_strs ?l = Inr [second_run_str ''Roses are red'' '' sun'']"
    by (simp add: second_run_strs_def second_run_strs_of_def index_def bind_res_def)
  show ?thesis
    using C6_template_names_both_values [OF run, of 0] run
    by (simp add: second_run_str_def recall_str_def)
qed

text \<open>
  Claim C9: when the sequences of base prompts and stage-1 outputs cover the batch, the
  composition of the stage-2 prompts returns, whatever the strings; for an element whose
  stage-1 output is the empty string the prompt is the base prompt followed by the fixed text
  of the template, \<^verbatim>\<open>"\nThe"\<close> and \<^verbatim>\<open>recall_str\<close>.
\<close>

theorem C9_empty_continuation:
  assumes "n \<le> length ps" and "n \<le> length outs" and "i < n" and "outs ! i = []"
  shows "\<exists>r. second_run_strs_of n ps outs = Inr r \<and> length r = n
           \<and> r ! i = ps ! i @ ''\<newline>The'' @ recall_str
           \<and> second_run_str (ps ! i) [] = ps ! i @ ''\<newline>The'' @ recall_str"
  using assms by (simp add: second_run_strs_of_long second_run_str_def)

text \<open>
  Claim C9 at a batch of two, the first stage-1 output empty.
\<close>

theorem C9_empty_continuation_witness:
  "\<exists>r. second_run_strs_of 2 [''Roses are red'', ''Violets''] ['''', '' are blue''] = Inr r
        \<and> length r = 2
        \<and> r ! 0 = ''Roses are red\<newline>The\<newline>Recall fact: x is either 0 or 1.\<newline>Answer: x =''"
  using C9_empty_continuation [of 2 "[''Roses are red'', ''Violets'']" "['''', '' are blue'']" 0]
  by (auto simp: recall_str_def)

text \<open>
  Claim C10: take two runs of the function up to the decoding of the first stage, with any
  trainers, generator states and batches, hence any sampled digits. If the decoded base prompt
  and the stage-1 output of element \<open>i\<close> are the same in both, the stage-2 prompts of element
  \<open>i\<close> are the same: each is composed of these two strings only.
\<close>

theorem C10_stage2_prompt_ignores_secret:
  assumes "first_run_of e w b = Inr (l, w1)" and "first_run_of e' w' b' = Inr (l', w1')"
    and "second_run_strs l = Inr r" and "second_run_strs l' = Inr r'"
    and "i < batch_size l" and "i < batch_size l'"
    and "str_prompts l ! i = str_prompts l' ! i"
    and "first_run_str_outputs l ! i = first_run_str_outputs l' ! i"
  shows "r ! i = r' ! i
         \<and> r ! i = second_run_str (str_prompts l ! i) (first_run_str_outputs l ! i)"
proof -
  have "r ! i = second_run_str (str_prompts l ! i) (first_run_str_outputs l ! i)"
    using assms(3,5) by (simp add: second_run_strs_def second_run_strs_of_nth)
  moreover have "r' ! i = second_run_str (str_prompts l' ! i) (first_run_str_outputs l' ! i)"
    using assms(4,6) by (simp add: second_run_strs_def second_run_strs_of_nth)
  ultimately show ?thesis
    using assms(7,8) by simp
qed

text \<open>
  The scripted run: its first stage from the generator states 0 and 1, and its stage-2
  prompts.
\<close>

lemma stub_first_run_0:
  "first_run_of stub_env 0 stub_batch = Inr (stub_first_run 0, 1)"
  by (simp add: first_run_of_def stub_env_def stub_batch_def stub_first_run_def fact_strs_of_def
      first_run_strs_of_def index_def bind_res_def)

lemma stub_first_run_1:
  "first_run_of stub_env 1 stub_batch = Inr (stub_first_run 1, 2)"
  by (simp add: first_run_of_def stub_env_def stub_batch_def stub_first_run_def fact_strs_of_def
      first_run_strs_of_def index_def bind_res_def)

lemma stub_second_run_strs:
  "second_run_strs (stub_first_run d) =
     Inr [''Roses are red\<newline>The sun rises softly\<newline>Recall fact: x is either 0 or 1.\<newline>Answer: x ='']"
  by (simp add: second_run_strs_def second_run_strs_of_def stub_first_run_def index_def
      bind_res_def second_run_str_def recall_str_def)

text \<open>
  Claim C10 at two scripted runs that sample the digits 0 and 1.
\<close>

theorem C10_stage2_prompt_ignores_secret_witness:
  "first_run_of stub_env 0 stub_batch = Inr (stub_first_run 0, 1)
   \<and> first_run_of stub_env 1 stub_batch = Inr (stub_first_run 1, 2)
   \<and> digits (stub_first_run 0) ! 0 \<noteq> digits (stub_first_run 1) ! 0
   \<and> (\<exists>r r'. second_run_strs (stub_first_run 0) = Inr r
          \<and> second_run_strs (stub_first_run 1) = Inr r' \<and> r ! 0 = r' ! 0)"
proof -
  have differ: "digits (stub_first_run 0) ! 0 \<noteq> digits (stub_first_run 1) ! 0"
    by (simp add: stub_first_run_def)
  have "i < batch_size (stub_first_run d)" if "i = 0" for i d
    using that by (simp add: stub_first_run_def)
  then have "[''Roses are red\<newline>The sun rises softly\<newline>Recall fact: x is either 0 or 1.\<newline>Answer: x =''] ! 0
      = [''Roses are red\<newline>The sun rises softly\<newline>Recall fact: x is either 0 or 1.\<newline>Answer: x =''] ! 0
    \<and> [''Roses are red\<newline>The sun rises softly\<newline>Recall fact: x is either 0 or 1.\<newline>Answer: x =''] ! 0
      = second_run_str (str_prompts (stub_first_run 0) ! 0) (first_run_str_outputs (stub_first_run 0) ! 0)"
    by (intro C10_stage2_prompt_ignores_secret [OF stub_first_run_0 stub_first_run_1
          stub_second_run_strs stub_second_run_strs])
      (simp_all add: stub_first_run_def)
  with differ stub_first_run_0 stub_first_run_1 stub_second_run_strs show ?thesis
    by blast
qed

text \<open>
  The whole function on the scripted trainer: one five-field trajectory, the data of both
  runs one after the other, the statistics summed.
\<close>

lemma experience_fn_stub:
  "encoder_decoder_experience_fn stub_env 1 stub_batch =
     Inr (([[PInt 1, PStr ''Roses are red'', PStr '' sun rises softly'',
             PStr ''Roses are red'', PStr '' sun rises softly'']],
           \<lparr> samples = [[7], [7]], all_logprobs = [0, 0], all_ref_logprobs = [0, 0],
             query_tensors = [[7], [7]], response_tensors = [[7], [7]], all_values = [0, 0] \<rparr>,
           [(''kl'', 2)]), 2)"
  unfolding encoder_decoder_experience_fn_def stub_first_run_1 bind_res_Inr prod.case
    stub_second_run_strs
  by (simp add: stub_env_def stub_first_run_def bind_res_def stats_sum_def lookup_def
      trajectories_of_def trajectory_at_def index_def run_element_batch_add_def)

end
